theory Spec2Isabelle
  imports Main "HOL-Library.Word"
begin

section \<open>The string escaper\<close>

text \<open>
  \<^verbatim>\<open>std::string escape_string(std::string val)\<close> of \<^verbatim>\<open>mysql.hpp\<close>.
  A \<^verbatim>\<open>std::string\<close> is a list of bytes; \<^verbatim>\<open>size_t\<close> is the 64-bit
  unsigned integer of the LP64 platforms the header is built on. The only failure
  the function can meet is the \<^verbatim>\<open>std::out_of_range\<close> that
  \<^verbatim>\<open>std::string::at\<close> throws for a position at or beyond the size
  (\<open>OutOfRange\<close>). \<open>UndefinedBehaviour\<close> marks an unchecked array access
  outside the array, which the wrapper classes below can make.
\<close>

datatype error = OutOfRange | UndefinedBehaviour

type_synonym size_t = "64 word"

definition at_s :: "string \<Rightarrow> size_t \<Rightarrow> error + char" where
  "at_s val pos = (if unat pos < length val then Inr (val ! unat pos) else Inl OutOfRange)"

definition bind_e :: "error + 'a \<Rightarrow> ('a \<Rightarrow> error + 'b) \<Rightarrow> error + 'b" where
  "bind_e m f = (case m of Inl e \<Rightarrow> Inl e | Inr x \<Rightarrow> f x)"

definition ch_quote :: char where "ch_quote = CHR 0x27"
definition ch_dquote :: char where "ch_dquote = CHR 0x22"
definition ch_backslash :: char where "ch_backslash = CHR 0x5C"
definition ch_nl :: char where "ch_nl = CHR 0x0A"
definition ch_cr :: char where "ch_cr = CHR 0x0D"
definition ch_tab :: char where "ch_tab = CHR 0x09"
definition ch_vt :: char where "ch_vt = CHR 0x0B"
definition ch_ff :: char where "ch_ff = CHR 0x0C"

text \<open>The case labels of the \<^verbatim>\<open>switch\<close>, in the order of the source.\<close>

definition is_special :: "char \<Rightarrow> bool" where
  "is_special c = (c = ch_quote \<or> c = ch_nl \<or> c = ch_cr \<or> c = ch_tab \<or> c = ch_vt
     \<or> c = ch_ff \<or> c = ch_backslash \<or> c = ch_dquote)"

text \<open>
  The \<^verbatim>\<open>if\<close>/\<^verbatim>\<open>else if\<close> chain that closes the special case: what is appended for
  the character itself.
\<close>

definition escape_tail :: "char \<Rightarrow> string" where
  "escape_tail c =
     (if c = ch_nl then [ch_backslash, CHR ''n'']
      else if c = ch_cr then [ch_backslash, CHR ''r'']
      else if c = ch_tab then [ch_backslash, CHR ''t'']
      else if c = ch_ff then [ch_backslash, CHR ''f'']
      else if c = ch_vt then [ch_backslash, CHR ''v'']
      else [c])"

text \<open>
  One iteration of the \<^verbatim>\<open>for\<close> loop at index \<open>i\<close>. \<^verbatim>\<open>pev = i - 1\<close> is computed
  in \<^verbatim>\<open>size_t\<close>, so it wraps to \<open>2^64 - 1\<close> at \<open>i = 0\<close>, and the test
  \<^verbatim>\<open>pev >= 0\<close> is an unsigned comparison. The repeated \<^verbatim>\<open>val.at(i)\<close> of the
  source read the same in-range position as the \<^verbatim>\<open>switch\<close> does.
\<close>

definition escape_iter :: "string \<Rightarrow> size_t \<Rightarrow> string \<Rightarrow> error + string" where
  "escape_iter val i result =
     (let pev = i - 1 in
      bind_e (at_s val i) (\<lambda>c.
        if is_special c then
          bind_e
            (if 0 \<le> pev then
               bind_e (at_s val pev) (\<lambda>p.
                 Inr (if p \<noteq> ch_backslash then result @ [ch_backslash] else result))
             else Inr (result @ [ch_backslash]))
            (\<lambda>result. Inr (result @ escape_tail c))
        else Inr (result @ [c])))"

text \<open>
  The loop \<^verbatim>\<open>for (size_t i = 0; i < val.length(); ++i)\<close>. The counter is kept as a
  natural number below the length; each iteration receives it as the \<^verbatim>\<open>size_t\<close> it is.
\<close>

function escape_loop :: "string \<Rightarrow> nat \<Rightarrow> string \<Rightarrow> error + string" where
  "escape_loop val i result =
     (if i < length val then
        (case escape_iter val (word_of_nat i) result of
           Inl e \<Rightarrow> Inl e
         | Inr result' \<Rightarrow> escape_loop val (Suc i) result')
      else Inr result)"
  by pat_completeness auto
termination
  by (relation "measure (\<lambda>(val, i, result). length val - i)") auto

definition escape_string :: "string \<Rightarrow> error + string" where
  "escape_string val = escape_loop val 0 []"

section \<open>The native client library\<close>

text \<open>
  The header wraps the C API of the native client library, which is not part of the
  repository. Its answers are therefore parameters: a \<open>native\<close> value gives, for
  every native function the wrapper calls, the value it returns for given arguments.
  What the wrapper does to the outside is recorded in a \<open>world\<close>: the native calls
  it made, in order, and the text it wrote to \<^verbatim>\<open>std::cerr\<close>. A native pointer is
  a number, and \<open>0\<close> is the null pointer. The mutex of the connection is not modelled:
  every function here runs alone, from its first statement to its return.
\<close>

type_synonym ptr = nat

record conn_args =
  host :: "string option"
  user :: "string option"
  password :: "string option"
  db :: "string option"
  port :: "32 word"
  unix_socket :: "string option"
  client_flag :: "64 word"

datatype native_call =
    Mysql_init
  | Mysql_real_connect ptr
  | Mysql_close ptr
  | Mysql_ping ptr
  | Mysql_error ptr
  | Mysql_real_query ptr string
  | Mysql_use_result ptr
  | Mysql_num_fields ptr
  | Mysql_free_result ptr
  | Mysql_fetch_row ptr
  | Mysql_fetch_lengths ptr
  | Mysql_stmt_init ptr
  | Mysql_stmt_prepare ptr string
  | Mysql_stmt_param_count ptr
  | Mysql_stmt_close ptr
  | Mysql_insert_id ptr
  | Mysql_affected_rows ptr
  | Mysql_more_results ptr
  | Mysql_next_result ptr

record native =
  mysql_init_r :: ptr
  mysql_real_connect_r :: "ptr \<Rightarrow> conn_args \<Rightarrow> ptr"
  mysql_ping_r :: "ptr \<Rightarrow> int"
  mysql_error_r :: "ptr \<Rightarrow> string"
  mysql_real_query_r :: "ptr \<Rightarrow> string \<Rightarrow> int"
  mysql_use_result_r :: "ptr \<Rightarrow> ptr"
  mysql_num_fields_r :: "ptr \<Rightarrow> 32 word"
  mysql_fetch_row_r :: "ptr \<Rightarrow> ptr"
  mysql_fetch_lengths_r :: "ptr \<Rightarrow> ptr"
  mysql_stmt_init_r :: "ptr \<Rightarrow> ptr"
  mysql_stmt_prepare_r :: "ptr \<Rightarrow> string \<Rightarrow> int"
  mysql_stmt_param_count_r :: "ptr \<Rightarrow> nat"
  mysql_insert_id_r :: "ptr \<Rightarrow> 64 word"
  mysql_affected_rows_r :: "ptr \<Rightarrow> 64 word"
  mysql_more_results_r :: "ptr \<Rightarrow> int"
  mysql_next_result_r :: "ptr \<Rightarrow> int"

record world =
  calls :: "native_call list"
  cerr :: string

definition called :: "native_call \<Rightarrow> world \<Rightarrow> world" where
  "called c w = w\<lparr>calls := calls w @ [c]\<rparr>"

definition print_cerr :: "string \<Rightarrow> world \<Rightarrow> world" where
  "print_cerr s w = w\<lparr>cerr := cerr w @ s\<rparr>"

section \<open>Row\<close>

record Row =
  row :: ptr
  lengths :: ptr

definition Row_default :: Row where
  "Row_default = \<lparr>row = 0, lengths = 0\<rparr>"

definition Row_ctor :: "ptr \<Rightarrow> ptr \<Rightarrow> Row" where
  "Row_ctor r l = \<lparr>row = r, lengths = l\<rparr>"

text \<open>
  The move constructor \<^verbatim>\<open>Row(Row&& x)\<close>: the new object, and the source as it is
  left.
\<close>

definition Row_move :: "Row \<Rightarrow> Row \<times> Row" where
  "Row_move x = (\<lparr>row = row x, lengths = lengths x\<rparr>, x\<lparr>row := 0, lengths := 0\<rparr>)"

definition Row_bool :: "Row \<Rightarrow> bool" where
  "Row_bool r = (row r \<noteq> 0)"

text \<open>
  \<^verbatim>\<open>Row& operator=(Row&& x) { using std::swap; swap(*this, x); return *this; }\<close>.
  The class declares no \<^verbatim>\<open>swap\<close> of its own, so the call is
  \<^verbatim>\<open>std::swap<Row>\<close>, which the C++ standard library defines as
  \<^verbatim>\<open>T tmp(std::move(a)); a = std::move(b); b = std::move(tmp);\<close>: one move
  construction and two move assignments, each of them this operator again. The
  operator may therefore not return; \<open>None\<close> is that case. The result is the pair of
  the target and the source as they are left.
\<close>

partial_function (option) Row_move_assign :: "Row \<Rightarrow> Row \<Rightarrow> (Row \<times> Row) option" where
  "Row_move_assign this x =
     (case Row_move this of (tmp, a) \<Rightarrow>
        Option.bind (Row_move_assign a x) (\<lambda>(a', b').
        Option.bind (Row_move_assign b' tmp) (\<lambda>(b'', tmp').
          Some (a', b''))))"

section \<open>Result\<close>

record Result =
  res :: ptr
  num_fields :: int

definition Result_default :: Result where
  "Result_default = \<lparr>res = 0, num_fields = 0\<rparr>"

text \<open>
  \<^verbatim>\<open>Result(MYSQL_RES* res) : res(res), num_fields(mysql_num_fields(res)) {}\<close>.
  \<^verbatim>\<open>mysql_num_fields\<close> returns an \<^verbatim>\<open>unsigned int\<close>; the \<^verbatim>\<open>int\<close> member
  receives the same 32 bits, read as two's complement.
\<close>

definition Result_ctor :: "native \<Rightarrow> ptr \<Rightarrow> world \<Rightarrow> Result \<times> world" where
  "Result_ctor nl r w =
     (\<lparr>res = r, num_fields = sint (mysql_num_fields_r nl r)\<rparr>,
      called (Mysql_num_fields r) w)"

text \<open>The move constructor: the new object, and the source as it is left.\<close>

definition Result_move :: "Result \<Rightarrow> Result \<times> Result" where
  "Result_move r = (\<lparr>res = res r, num_fields = num_fields r\<rparr>, r\<lparr>res := 0\<rparr>)"

definition Result_dtor :: "Result \<Rightarrow> world \<Rightarrow> world" where
  "Result_dtor r w = (if res r \<noteq> 0 then called (Mysql_free_result (res r)) w else w)"

definition Result_bool :: "Result \<Rightarrow> bool" where
  "Result_bool r = (res r \<noteq> 0)"

text \<open>
  Move assignment, for two distinct objects: the target, the source as it is left, and
  the world.
\<close>

definition Result_move_assign :: "Result \<Rightarrow> Result \<Rightarrow> world \<Rightarrow> Result \<times> Result \<times> world" where
  "Result_move_assign this r w =
     (let w = called (Mysql_free_result (res this)) w;
          this = this\<lparr>res := res r\<rparr>;
          this = this\<lparr>num_fields := num_fields r\<rparr>;
          r = r\<lparr>res := 0\<rparr>
      in (this, r, w))"

definition fetch_row :: "native \<Rightarrow> Result \<Rightarrow> world \<Rightarrow> Row \<times> world" where
  "fetch_row nl this w =
     (let row = mysql_fetch_row_r nl (res this);
          w = called (Mysql_fetch_row (res this)) w;
          lengths = mysql_fetch_lengths_r nl (res this);
          w = called (Mysql_fetch_lengths (res this)) w
      in (Row_ctor row lengths, w))"

section \<open>Stmt\<close>

text \<open>
  \<^verbatim>\<open>MYSQL_BIND\<close> and \<^verbatim>\<open>enum_field_types\<close> are declared by the native
  library's header; only the members and the enumerators that \<^verbatim>\<open>mysql.hpp\<close> uses are
  kept. \<open>MYSQL_TYPE_DECIMAL\<close> is the enumerator of value 0, the one a zeroed slot
  holds. A \<^verbatim>\<open>void*\<close> buffer is modelled by the object it points to, and a pointer
  to \<^verbatim>\<open>unsigned long\<close> is either null or the address of the \<^verbatim>\<open>buffer_length\<close>
  member of a slot of the same array.
\<close>

datatype enum_field_types = MYSQL_TYPE_DECIMAL | MYSQL_TYPE_LONG | MYSQL_TYPE_STRING

datatype buffer_ptr = Null_buffer | Int_object "32 word" | String_bytes string

datatype ulong_ptr = Null_ulong | Buffer_length_of nat

record MYSQL_BIND =
  buffer_type :: enum_field_types
  buffer :: buffer_ptr
  buffer_length :: "64 word"
  is_null :: ptr
  length_ptr :: ulong_ptr

definition zero_bind :: MYSQL_BIND where
  "zero_bind = \<lparr>buffer_type = MYSQL_TYPE_DECIMAL, buffer = Null_buffer, buffer_length = 0,
     is_null = 0, length_ptr = Null_ulong\<rparr>"

text \<open>
  \<open>params\<close> is \<open>None\<close> for the null pointer and otherwise the array it points to,
  which no other object shares. \<^verbatim>\<open>str_length\<close> is initialised by no constructor
  but the moving one: \<open>None\<close> is its indeterminate value.
\<close>

record Stmt =
  stmt :: ptr
  count :: nat
  params :: "MYSQL_BIND list option"
  str_length :: "64 word option"

definition Stmt_default :: Stmt where
  "Stmt_default = \<lparr>stmt = 0, count = 0, params = None, str_length = None\<rparr>"

definition Stmt_ctor :: "native \<Rightarrow> ptr \<Rightarrow> world \<Rightarrow> Stmt \<times> world" where
  "Stmt_ctor nl st w =
     (let n = mysql_stmt_param_count_r nl st
      in (\<lparr>stmt = st, count = n, params = Some (replicate n zero_bind), str_length = None\<rparr>,
          called (Mysql_stmt_param_count st) w))"

text \<open>
  \<^verbatim>\<open>~Stmt() { if (stmt) mysql_stmt_close(stmt); delete [] params; }\<close>. Deleting the
  array makes no native call and ends the array with the object.
\<close>

definition Stmt_dtor :: "Stmt \<Rightarrow> world \<Rightarrow> world" where
  "Stmt_dtor s w = (if stmt s \<noteq> 0 then called (Mysql_stmt_close (stmt s)) w else w)"

definition Stmt_move :: "Stmt \<Rightarrow> Stmt \<times> Stmt" where
  "Stmt_move x =
     (\<lparr>stmt = stmt x, count = count x, params = params x, str_length = str_length x\<rparr>,
      x\<lparr>stmt := 0, params := None\<rparr>)"

definition Stmt_move_assign :: "Stmt \<Rightarrow> Stmt \<Rightarrow> Stmt \<times> Stmt" where
  "Stmt_move_assign this x =
     (let this = this\<lparr>stmt := stmt x\<rparr>;
          this = this\<lparr>count := count x\<rparr>;
          this = this\<lparr>params := params x\<rparr>;
          this = this\<lparr>str_length := str_length x\<rparr>;
          x = x\<lparr>stmt := 0\<rparr>;
          x = x\<lparr>params := None\<rparr>
      in (this, x))"

definition Stmt_bool :: "Stmt \<Rightarrow> bool" where
  "Stmt_bool s = (stmt s \<noteq> 0)"

text \<open>
  \<^verbatim>\<open>void bind_param(int i, enum_field_types buffer_type, void* buffer,
  int buffer_length, my_bool* is_null, long unsigned int* length)\<close>. The index is not
  checked by the source: outside the array (or with no array) the access is undefined.
  \<^verbatim>\<open>buffer_length\<close> arrives as a 32-bit \<^verbatim>\<open>int\<close> and is stored in an
  \<^verbatim>\<open>unsigned long\<close> member, which sign-extends it.
\<close>

definition bind_param ::
  "Stmt \<Rightarrow> int \<Rightarrow> enum_field_types \<Rightarrow> buffer_ptr \<Rightarrow> 32 word \<Rightarrow> ptr \<Rightarrow> ulong_ptr \<Rightarrow> error + Stmt" where
  "bind_param this i bt buf blen isn len =
     (case params this of
        None \<Rightarrow> Inl UndefinedBehaviour
      | Some arr \<Rightarrow>
          if 0 \<le> i \<and> nat i < length arr then
            (let b = arr ! nat i;
                 b = b\<lparr>buffer_type := bt\<rparr>;
                 b = b\<lparr>buffer := buf\<rparr>;
                 b = b\<lparr>buffer_length := scast blen\<rparr>;
                 b = b\<lparr>is_null := isn\<rparr>;
                 b = b\<lparr>length_ptr := len\<rparr>
             in Inr (this\<lparr>params := Some (arr[nat i := b])\<rparr>))
          else Inl UndefinedBehaviour)"

definition bind_param_int :: "Stmt \<Rightarrow> int \<Rightarrow> 32 word \<Rightarrow> error + Stmt" where
  "bind_param_int this i x = bind_param this i MYSQL_TYPE_LONG (Int_object x) 0 0 Null_ulong"

text \<open>
  \<^verbatim>\<open>bind_param(i, MYSQL_TYPE_STRING, (char*)x.c_str(), x.size(), 0,
  &(params[i].buffer_length))\<close>: \<^verbatim>\<open>x.size()\<close> is a \<^verbatim>\<open>size_t\<close>, converted to the
  \<^verbatim>\<open>int\<close> parameter by keeping its low 32 bits.
\<close>

definition bind_param_string :: "Stmt \<Rightarrow> int \<Rightarrow> string \<Rightarrow> error + Stmt" where
  "bind_param_string this i x =
     bind_param this i MYSQL_TYPE_STRING (String_bytes x)
       (ucast (word_of_nat (length x) :: size_t)) 0 (Buffer_length_of (nat i))"

section \<open>The connection\<close>

record mysql =
  handle :: ptr

definition mysql_ctor :: "native \<Rightarrow> world \<Rightarrow> mysql \<times> world" where
  "mysql_ctor nl w = (\<lparr>handle = mysql_init_r nl\<rparr>, called Mysql_init w)"

definition close :: "mysql \<Rightarrow> world \<Rightarrow> mysql \<times> world" where
  "close m w =
     (if handle m \<noteq> 0 then (m\<lparr>handle := 0\<rparr>, called (Mysql_close (handle m)) w)
      else (m, w))"

definition is_open :: "native \<Rightarrow> mysql \<Rightarrow> world \<Rightarrow> bool \<times> world" where
  "is_open nl m w =
     (if handle m = 0 then (False, w)
      else (mysql_ping_r nl (handle m) = 0, called (Mysql_ping (handle m)) w))"

definition connect :: "native \<Rightarrow> conn_args \<Rightarrow> mysql \<Rightarrow> world \<Rightarrow> bool \<times> mysql \<times> world" where
  "connect nl a m w =
     (let (opn, w) = is_open nl m w;
          (m, w) = (if opn then close m w else (m, w));
          m = m\<lparr>handle := mysql_init_r nl\<rparr>;
          w = called Mysql_init w
      in if handle m = 0 then (False, m, w)
         else
           (let h = mysql_real_connect_r nl (handle m) a;
                w = called (Mysql_real_connect (handle m)) w
            in if h \<noteq> 0 then (True, m, w)
               else
                 (let w = called (Mysql_error (handle m)) w;
                      w = print_cerr (''Failed to connect to database: Error: ''
                            @ mysql_error_r nl (handle m) @ [ch_nl]) w;
                      w = called (Mysql_close (handle m)) w
                  in (False, m\<lparr>handle := 0\<rparr>, w))))"

text \<open>
  The conversions to the \<^verbatim>\<open>int\<close> the wrapper returns keep the low 32 bits of the
  native 64-bit count, read as two's complement.
\<close>

definition insert_id :: "native \<Rightarrow> mysql \<Rightarrow> world \<Rightarrow> int \<times> world" where
  "insert_id nl m w =
     (if handle m \<noteq> 0
      then (sint (ucast (mysql_insert_id_r nl (handle m)) :: 32 word),
            called (Mysql_insert_id (handle m)) w)
      else (- 1, w))"

definition affected_rows :: "native \<Rightarrow> mysql \<Rightarrow> world \<Rightarrow> int \<times> world" where
  "affected_rows nl m w =
     (if handle m \<noteq> 0
      then (sint (ucast (mysql_affected_rows_r nl (handle m)) :: 32 word),
            called (Mysql_affected_rows (handle m)) w)
      else (- 1, w))"

definition more_results :: "native \<Rightarrow> mysql \<Rightarrow> world \<Rightarrow> int \<times> world" where
  "more_results nl m w =
     (mysql_more_results_r nl (handle m), called (Mysql_more_results (handle m)) w)"

definition next_result :: "native \<Rightarrow> mysql \<Rightarrow> world \<Rightarrow> int \<times> world" where
  "next_result nl m w =
     (let x = mysql_next_result_r nl (handle m)
      in (x, called (Mysql_next_result (handle m)) w))"

text \<open>
  \<^verbatim>\<open>use_result\<close>: in the branch for a null result the source writes the expression
  statement \<^verbatim>\<open>Result{};\<close>, a temporary that is built and destroyed at once; control
  then reaches \<^verbatim>\<open>return Result{result};\<close> in every case.
\<close>

definition use_result :: "native \<Rightarrow> mysql \<Rightarrow> world \<Rightarrow> Result \<times> world" where
  "use_result nl m w =
     (let result = mysql_use_result_r nl (handle m);
          w = called (Mysql_use_result (handle m)) w;
          w = (if result = 0 then Result_dtor Result_default w else w)
      in Result_ctor nl result w)"

definition prepare :: "native \<Rightarrow> mysql \<Rightarrow> string \<Rightarrow> world \<Rightarrow> Stmt \<times> world" where
  "prepare nl m s w =
     (let st = mysql_stmt_init_r nl (handle m);
          w = called (Mysql_stmt_init (handle m)) w;
          x = mysql_stmt_prepare_r nl st s;
          w = called (Mysql_stmt_prepare st s) w
      in if x \<noteq> 0 then (Stmt_default, w)
         else Stmt_ctor nl st w)"

definition query :: "native \<Rightarrow> mysql \<Rightarrow> string \<Rightarrow> world \<Rightarrow> Result \<times> world" where
  "query nl m s w =
     (let x = mysql_real_query_r nl (handle m) s;
          w = called (Mysql_real_query (handle m) s) w
      in if x \<noteq> 0
         then
           (let w = called (Mysql_error (handle m)) w;
                w = print_cerr (''Error: '' @ mysql_error_r nl (handle m) @ [ch_nl]) w
            in (Result_default, w))
         else use_result nl m w)"

section \<open>Notions used to state the properties\<close>

text \<open>
  What iteration \<open>i\<close> of the loop appends when it does not throw, and the output
  accumulated by the first \<open>n\<close> iterations.
\<close>

definition esc_piece :: "string \<Rightarrow> nat \<Rightarrow> string" where
  "esc_piece val i =
     (if is_special (val ! i)
      then (if val ! (i - 1) \<noteq> ch_backslash then [ch_backslash] else []) @ escape_tail (val ! i)
      else [val ! i])"

definition esc_out :: "string \<Rightarrow> nat \<Rightarrow> string" where
  "esc_out val n = concat (map (esc_piece val) [0..<n])"

text \<open>
  Reading a text in which a backslash escapes the character after it: the state of the
  reader is whether the previous character was a backslash that is still waiting for
  the character it escapes. \<open>escape_pending s\<close> is that state after all of \<open>s\<close>, and
  position \<open>p\<close> of \<open>s\<close> is escaped when the reader arrives there in that state.
\<close>

fun esc_scan :: "bool \<Rightarrow> string \<Rightarrow> bool" where
  "esc_scan p [] = p"
| "esc_scan p (c # cs) = esc_scan (if p then False else c = ch_backslash) cs"

definition escape_pending :: "string \<Rightarrow> bool" where
  "escape_pending s = esc_scan False s"

definition escaped_at :: "string \<Rightarrow> nat \<Rightarrow> bool" where
  "escaped_at s p = escape_pending (take p s)"

text \<open>The three characters that are escaped by a backslash before themselves.\<close>

definition is_quoting :: "char \<Rightarrow> bool" where
  "is_quoting c = (c = ch_quote \<or> c = ch_dquote \<or> c = ch_backslash)"

text \<open>Reading an \<^verbatim>\<open>unsigned long\<close> through a pointer into the array \<open>arr\<close>.\<close>

definition deref_ulong :: "MYSQL_BIND list \<Rightarrow> ulong_ptr \<Rightarrow> 64 word option" where
  "deref_ulong arr p =
     (case p of
        Null_ulong \<Rightarrow> None
      | Buffer_length_of j \<Rightarrow> if j < length arr then Some (buffer_length (arr ! j)) else None)"

text \<open>
  Native libraries to run the wrapper against. \<open>quiet_native\<close> accepts everything and
  has no result set to give (as after an \<^verbatim>\<open>INSERT\<close>); \<open>failing_native\<close> refuses
  the connection, every query and every statement.
\<close>

definition quiet_native :: native where
  "quiet_native =
     \<lparr>mysql_init_r = 1,
      mysql_real_connect_r = (\<lambda>h a. h),
      mysql_ping_r = (\<lambda>h. 0),
      mysql_error_r = (\<lambda>h. ''server error''),
      mysql_real_query_r = (\<lambda>h s. 0),
      mysql_use_result_r = (\<lambda>h. 0),
      mysql_num_fields_r = (\<lambda>r. 0),
      mysql_fetch_row_r = (\<lambda>r. 0),
      mysql_fetch_lengths_r = (\<lambda>r. 0),
      mysql_stmt_init_r = (\<lambda>h. 2),
      mysql_stmt_prepare_r = (\<lambda>st s. 0),
      mysql_stmt_param_count_r = (\<lambda>st. 1),
      mysql_insert_id_r = (\<lambda>h. 0),
      mysql_affected_rows_r = (\<lambda>h. 0),
      mysql_more_results_r = (\<lambda>h. 0),
      mysql_next_result_r = (\<lambda>h. - 1)\<rparr>"

definition failing_native :: native where
  "failing_native =
     quiet_native\<lparr>mysql_real_connect_r := (\<lambda>h a. 0),
       mysql_real_query_r := (\<lambda>h s. 1),
       mysql_stmt_prepare_r := (\<lambda>st s. 1)\<rparr>"

definition world0 :: world where
  "world0 = \<lparr>calls = [], cerr = []\<rparr>"

definition args0 :: conn_args where
  "args0 = \<lparr>host = Some ''localhost'', user = Some ''root'', password = None, db = Some ''test'',
     port = 3306, unix_socket = None, client_flag = 0\<rparr>"

definition one_slot_stmt :: Stmt where
  "one_slot_stmt = \<lparr>stmt = 2, count = 1, params = Some [zero_bind], str_length = None\<rparr>"

section \<open>The escaper: what the loop computes\<close>

lemma unat_size_t_of_nat: "i < 2 ^ 64 \<Longrightarrow> unat (word_of_nat i :: size_t) = i"
  by (simp add: unat_of_nat)

lemma unat_size_t_pred: "0 < i \<Longrightarrow> i < 2 ^ 64 \<Longrightarrow> unat ((word_of_nat i :: size_t) - 1) = i - 1"
proof -
  assume a: "0 < i" "i < 2 ^ 64"
  then obtain j where j: "i = Suc j"
    by (cases i) simp_all
  have "(word_of_nat (Suc j) :: size_t) - 1 = word_of_nat j"
    by simp
  then have "unat ((word_of_nat i :: size_t) - 1) = j mod 2 ^ 64"
    by (simp add: j unat_of_nat del: of_nat_Suc)
  with a j show ?thesis by simp
qed

lemma escape_iter_pos:
  assumes "0 < i" "i < length val" "length val < 2 ^ 64"
  shows "escape_iter val (word_of_nat i) result = Inr (result @ esc_piece val i)"
proof -
  have i: "unat (word_of_nat i :: size_t) = i"
    using assms by (simp add: unat_size_t_of_nat)
  have p: "unat ((word_of_nat i :: size_t) - 1) = i - 1"
    using assms by (simp add: unat_size_t_pred)
  show ?thesis
    using assms by (auto simp add: escape_iter_def Let_def at_s_def bind_e_def i p esc_piece_def)
qed

lemma escape_iter_zero:
  assumes "val \<noteq> []" "length val < 2 ^ 64"
  shows "escape_iter val 0 result =
     (if is_special (val ! 0) then Inl OutOfRange else Inr (result @ [val ! 0]))"
proof -
  have "unat (0 - 1 :: size_t) = 2 ^ 64 - 1"
    by (simp add: unsigned_minus_1_eq_mask mask_eq_exp_minus_1)
  then have "\<not> unat (0 - 1 :: size_t) < length val"
    using assms by simp
  then show ?thesis
    using assms by (simp add: escape_iter_def Let_def at_s_def bind_e_def)
qed

lemma escape_loop_pos:
  "length val < 2 ^ 64 \<Longrightarrow> 0 < i \<Longrightarrow>
   escape_loop val i result = Inr (result @ concat (map (esc_piece val) [i..<length val]))"
proof (induction val i result rule: escape_loop.induct)
  case (1 val i result)
  show ?case
  proof (cases "i < length val")
    case True
    have it: "escape_iter val (word_of_nat i) result = Inr (result @ esc_piece val i)"
      using "1.prems" True by (simp add: escape_iter_pos)
    have "escape_loop val (Suc i) (result @ esc_piece val i) =
        Inr ((result @ esc_piece val i) @ concat (map (esc_piece val) [Suc i..<length val]))"
      using "1.IH" [OF True it] "1.prems" by simp
    then show ?thesis
      using True it by (simp add: upt_conv_Cons)
  next
    case False
    then show ?thesis by simp
  qed
qed

lemma escape_string_char:
  assumes "length val < 2 ^ 64"
  shows "escape_string val =
     (if val = [] then Inr []
      else if is_special (val ! 0) then Inl OutOfRange
      else Inr (concat (map (esc_piece val) [0..<length val])))"
proof (cases "val = []")
  case True
  then show ?thesis by (simp add: escape_string_def)
next
  case False
  have z: "escape_iter val 0 [] =
     (if is_special (val ! 0) then Inl OutOfRange else Inr ([] @ [val ! 0]))"
    using False assms by (rule escape_iter_zero)
  have l: "escape_loop val (Suc 0) [val ! 0] =
     Inr ([val ! 0] @ concat (map (esc_piece val) [Suc 0..<length val]))"
    using assms by (rule escape_loop_pos) simp
  have p0: "\<not> is_special (val ! 0) \<Longrightarrow> esc_piece val 0 = [val ! 0]"
    by (simp add: esc_piece_def)
  show ?thesis
    using False z l p0 by (simp add: escape_string_def upt_conv_Cons)
qed

lemma escape_string_first_special:
  assumes "val \<noteq> []" and "length val < 2 ^ 64" and "is_special (val ! 0)"
  shows "escape_string val = Inl OutOfRange"
  using assms by (simp add: escape_string_char)

lemma esc_out_Suc: "esc_out val (Suc n) = esc_out val n @ esc_piece val n"
  by (simp add: esc_out_def)

lemma esc_piece_take: "i < n \<Longrightarrow> n \<le> length val \<Longrightarrow> esc_piece (take n val) i = esc_piece val i"
  by (simp add: esc_piece_def)

lemma esc_out_take: "m \<le> n \<Longrightarrow> n \<le> length val \<Longrightarrow> esc_out (take n val) m = esc_out val m"
proof -
  assume a: "m \<le> n" "n \<le> length val"
  have "map (esc_piece (take n val)) [0..<m] = map (esc_piece val) [0..<m]"
    using a by (intro map_cong) (simp_all add: esc_piece_take)
  then show ?thesis unfolding esc_out_def by (rule arg_cong)
qed

lemma esc_out_split:
  "n \<le> m \<Longrightarrow> esc_out val m = esc_out val n @ concat (map (esc_piece val) [n..<m])"
proof -
  assume "n \<le> m"
  then have "[0..<m] = [0..<n] @ [n..<m]"
    by (metis le_add_diff_inverse upt_add_eq_append zero_le)
  then show ?thesis by (simp add: esc_out_def)
qed

lemma escape_string_Inr:
  assumes "length val < 2 ^ 64" "escape_string val = Inr out"
  shows "out = esc_out val (length val)" and "val \<noteq> [] \<Longrightarrow> \<not> is_special (val ! 0)"
  using assms by (auto simp add: escape_string_char esc_out_def split: if_splits)

lemma escape_string_take:
  assumes "length val < 2 ^ 64" "escape_string val = Inr out" "n \<le> length val"
  shows "escape_string (take n val) = Inr (esc_out val n)"
proof (cases "n = 0")
  case True
  then show ?thesis by (simp add: escape_string_def esc_out_def)
next
  case False
  with assms(3) have ne: "val \<noteq> []" by auto
  have ns: "\<not> is_special (val ! 0)"
    using escape_string_Inr(2) [OF assms(1,2) ne] .
  have len: "length (take n val) < 2 ^ 64"
    using assms(1) by simp
  have "escape_string (take n val) = Inr (esc_out (take n val) (length (take n val)))"
    using False ne ns assms(3) by (simp add: escape_string_char [OF len] esc_out_def)
  then show ?thesis
    using assms(3) by (simp add: esc_out_take)
qed

lemma esc_scan_append: "esc_scan p (xs @ ys) = esc_scan (esc_scan p xs) ys"
  by (induction xs arbitrary: p) simp_all

lemma escape_pending_snoc:
  "escape_pending (xs @ [c]) = (\<not> escape_pending xs \<and> c = ch_backslash)"
  by (simp add: escape_pending_def esc_scan_append)

lemma escape_pending_append:
  "escape_pending (xs @ ys) = esc_scan (escape_pending xs) ys"
  by (simp add: escape_pending_def esc_scan_append)

lemma esc_scan_piece:
  "0 < i \<Longrightarrow> val ! (i - 1) = ch_backslash \<or> \<not> p \<Longrightarrow>
   esc_scan p (esc_piece val i) = (val ! i = ch_backslash \<and> (val ! (i - 1) = ch_backslash \<and> \<not> p))"
  by (auto simp add: esc_piece_def escape_tail_def ch_backslash_def is_special_def
      ch_nl_def ch_cr_def ch_tab_def ch_ff_def ch_vt_def ch_quote_def ch_dquote_def)

lemma esc_out_pending:
  assumes "val \<noteq> []" "\<not> is_special (val ! 0)"
  shows "0 < n \<Longrightarrow> n \<le> length val \<Longrightarrow>
    escape_pending (esc_out val n) =
      (val ! (n - 1) = ch_backslash \<and> \<not> escape_pending (take n val))"
proof (induction n)
  case 0
  then show ?case by simp
next
  case (Suc n)
  show ?case
  proof (cases "n = 0")
    case True
    have "val ! 0 \<noteq> ch_backslash"
      using assms(2) by (auto simp add: is_special_def)
    then show ?thesis
      using True assms by (simp add: esc_out_def esc_piece_def escape_pending_def)
  next
    case False
    then have n: "0 < n" "n \<le> length val" "n < length val"
      using Suc.prems by simp_all
    have ih: "escape_pending (esc_out val n) =
        (val ! (n - 1) = ch_backslash \<and> \<not> escape_pending (take n val))"
      using Suc.IH n by simp
    have tk: "take (Suc n) val = take n val @ [val ! n]"
      using n by (simp add: take_Suc_conv_app_nth)
    have pre: "val ! (n - 1) = ch_backslash \<or> \<not> escape_pending (esc_out val n)"
      using ih by blast
    have nb: "val ! (n - 1) \<noteq> ch_backslash \<Longrightarrow> \<not> escape_pending (take n val)"
    proof -
      assume a: "val ! (n - 1) \<noteq> ch_backslash"
      have "take n val = take (n - 1) val @ [val ! (n - 1)]"
        using n by (metis Suc_diff_1 Suc_lessD take_Suc_conv_app_nth)
      then show ?thesis
        using a by (simp add: escape_pending_snoc)
    qed
    show ?thesis
      using esc_scan_piece [OF n(1) pre] ih nb
      by (auto simp add: esc_out_Suc escape_pending_append tk escape_pending_snoc)
  qed
qed

lemma is_quoting_special: "is_quoting c \<Longrightarrow> is_special c"
  by (auto simp add: is_quoting_def is_special_def)

lemma escape_tail_quoting: "is_quoting c \<Longrightarrow> escape_tail c = [c]"
  unfolding is_quoting_def escape_tail_def
  by (auto simp add: ch_backslash_def ch_nl_def ch_cr_def ch_tab_def ch_ff_def ch_vt_def
      ch_quote_def ch_dquote_def)

lemma esc_piece_quoting:
  "is_quoting (val ! i) \<Longrightarrow>
   esc_piece val i = (if val ! (i - 1) = ch_backslash then [] else [ch_backslash]) @ [val ! i]"
  by (simp add: esc_piece_def is_quoting_special escape_tail_quoting)

lemma esc_piece_after_backslash:
  "is_special (val ! i) \<Longrightarrow> val ! (i - 1) = ch_backslash \<Longrightarrow> esc_piece val i = escape_tail (val ! i)"
  by (simp add: esc_piece_def)

lemma escape_pending_take_prev:
  assumes "0 < i" "i \<le> length val" "escape_pending (take i val)"
  shows "val ! (i - 1) = ch_backslash"
proof -
  have "take i val = take (i - 1) val @ [val ! (i - 1)]"
    using assms(1,2) by (metis Suc_diff_1 Suc_le_lessD take_Suc_conv_app_nth)
  then show ?thesis
    using assms(3) by (simp add: escape_pending_snoc)
qed

lemma escape_string_OBrien:
  "escape_string [CHR ''O'', ch_quote, CHR ''B'', CHR ''r'', CHR ''i'', CHR ''e'', CHR ''n'']
     = Inr [CHR ''O'', ch_backslash, ch_quote, CHR ''B'', CHR ''r'', CHR ''i'', CHR ''e'', CHR ''n'']"
  by (simp add: escape_string_def escape_iter_def at_s_def bind_e_def is_special_def
        escape_tail_def ch_nl_def ch_backslash_def ch_quote_def ch_cr_def ch_tab_def ch_vt_def
        ch_ff_def ch_dquote_def)

lemma escape_string_a_bs_quote:
  "escape_string [CHR ''a'', ch_backslash, ch_quote]
     = Inr [CHR ''a'', ch_backslash, ch_backslash, ch_quote]"
  by (simp add: escape_string_def escape_iter_def at_s_def bind_e_def is_special_def
        escape_tail_def ch_nl_def ch_backslash_def ch_quote_def ch_cr_def ch_tab_def ch_vt_def
        ch_ff_def ch_dquote_def)

section \<open>Claims about the escaper\<close>

text \<open>
  Claim C1 says that a newline, carriage return, tab, form feed or vertical tab of the
  input is rendered as exactly its two-character escape form, so that a newline byte
  is replaced by backslash, \<open>n\<close>. On the two-byte input \<open>a\<close>, newline, the shared
  branch first appends the backslash every special character gets and the chain then
  appends the complete two-character form: the output is \<open>a\<close>, backslash, backslash,
  \<open>n\<close>. Read back, the second backslash is the escaped character of the first, and
  the \<open>n\<close> is an ordinary letter at an unescaped position: the newline is lost.
\<close>

theorem escape_string_newline_doubled:
  "escape_string [CHR ''a'', ch_nl] = Inr [CHR ''a'', ch_backslash, ch_backslash, CHR ''n'']
   \<and> escape_string [CHR ''a'', ch_nl] \<noteq> Inr [CHR ''a'', ch_backslash, CHR ''n'']
   \<and> escaped_at [CHR ''a'', ch_backslash, ch_backslash, CHR ''n''] 2
   \<and> \<not> escaped_at [CHR ''a'', ch_backslash, ch_backslash, CHR ''n''] 3"
  by (simp add: escape_string_def escape_iter_def at_s_def bind_e_def is_special_def
        escape_tail_def escaped_at_def escape_pending_def numeral_2_eq_2 numeral_3_eq_3
        ch_nl_def ch_backslash_def ch_quote_def ch_cr_def ch_tab_def ch_vt_def
        ch_ff_def ch_dquote_def)

text \<open>
  Claim C2 says that \<open>escape_string\<close> returns normally for every input, also when the
  first character is one that is escaped. For the empty string it does. For the
  one-character string holding a single quote, \<^verbatim>\<open>pev\<close> is \<open>2^64 - 1\<close>, the test
  \<^verbatim>\<open>pev >= 0\<close> holds, and \<^verbatim>\<open>val.at(pev)\<close> throws: the branch written for the
  first character is never taken.
\<close>

theorem escape_string_first_special_throws:
  "escape_string [] = Inr [] \<and> escape_string [ch_quote] = Inl OutOfRange"
  by (simp add: escape_string_def escape_iter_def at_s_def bind_e_def is_special_def
      unsigned_minus_1_eq_mask mask_eq_exp_minus_1)

text \<open>
  Claim C3. A single quote, double quote or backslash of the input requires escaping
  when it is not already escaped there, that is, when the reader of the input does not
  arrive at it with a backslash pending. For every input on which \<open>escape_string\<close>
  returns \<open>out\<close> and every special character at index \<open>i\<close>: the output \<open>q\<close> for the
  first \<open>i + 1\<close> characters is the beginning of \<open>out\<close>; if the character is preceded by
  an unescaped backslash in the input, \<open>q\<close> is the output for the first \<open>i\<close> characters
  followed by the character's own rendering, with no further backslash; and if it is
  a quoting character that required escaping, it is the last character of \<open>q\<close> and
  stands at an escaped position of \<open>out\<close>.
\<close>

theorem escape_string_escapes_quoting:
  assumes "length val < 2 ^ 64" and "escape_string val = Inr out"
    and "i < length val" and "is_special (val ! i)"
  shows "\<exists>pre q. escape_string (take i val) = Inr pre \<and>
     escape_string (take (Suc i) val) = Inr q \<and>
     take (length q) out = q \<and>
     (escape_pending (take i val) \<longrightarrow> q = pre @ escape_tail (val ! i)) \<and>
     (is_quoting (val ! i) \<and> \<not> escape_pending (take i val) \<longrightarrow>
        q \<noteq> [] \<and> last q = val ! i \<and> escaped_at out (length q - 1))"
proof -
  have ne: "val \<noteq> []"
    using assms(3) by auto
  have ns: "\<not> is_special (val ! 0)"
    using escape_string_Inr(2) [OF assms(1,2) ne] .
  have ipos: "0 < i"
    using ns assms(4) by (cases i) auto
  have pre: "escape_string (take i val) = Inr (esc_out val i)"
    using assms(1,2) assms(3) by (simp add: escape_string_take)
  have q: "escape_string (take (Suc i) val) = Inr (esc_out val (Suc i))"
    using assms(1,2) assms(3) by (simp add: escape_string_take)
  have out: "out = esc_out val (length val)"
    using assms(1,2) by (rule escape_string_Inr(1))
  have "esc_out val (length val) =
      esc_out val (Suc i) @ concat (map (esc_piece val) [Suc i..<length val])"
    using assms(3) by (simp add: esc_out_split)
  then have tk: "take (length (esc_out val (Suc i))) out = esc_out val (Suc i)"
    using out by simp
  have qe: "esc_out val (Suc i) = esc_out val i @ esc_piece val i"
    by (rule esc_out_Suc)
  have c1: "escape_pending (take i val) \<Longrightarrow>
      esc_out val (Suc i) = esc_out val i @ escape_tail (val ! i)"
    using escape_pending_take_prev [OF ipos] assms(3,4) qe
    by (simp add: esc_piece_after_backslash)
  have inv: "escape_pending (esc_out val i) =
      (val ! (i - 1) = ch_backslash \<and> \<not> escape_pending (take i val))"
    using esc_out_pending [OF ne ns ipos] assms(3) by simp
  have bl: "take (length (esc_out val (Suc i)) - 1) out = butlast (esc_out val (Suc i))"
    using tk by (metis butlast_conv_take butlast_take length_take min.cobounded1 take_all_iff
        diff_le_self take_take min.absorb_iff2)
  have c2: "is_quoting (val ! i) \<Longrightarrow> \<not> escape_pending (take i val) \<Longrightarrow>
      esc_out val (Suc i) \<noteq> [] \<and> last (esc_out val (Suc i)) = val ! i
      \<and> escape_pending (butlast (esc_out val (Suc i)))"
    using inv qe by (simp add: esc_piece_quoting butlast_append escape_pending_snoc)
  show ?thesis
    using pre q tk c1 c2 bl by (auto simp add: escaped_at_def)
qed

theorem escape_string_escapes_quoting_witness:
  "(\<exists>pre q. escape_string (take 1 [CHR ''a'', ch_backslash, ch_quote]) = Inr pre \<and>
      escape_string (take 2 [CHR ''a'', ch_backslash, ch_quote]) = Inr q \<and>
      take (length q) [CHR ''a'', ch_backslash, ch_backslash, ch_quote] = q \<and>
      q \<noteq> [] \<and> last q = ch_backslash \<and>
      escaped_at [CHR ''a'', ch_backslash, ch_backslash, ch_quote] (length q - 1)) \<and>
   (\<exists>pre q. escape_string (take 2 [CHR ''a'', ch_backslash, ch_quote]) = Inr pre \<and>
      escape_string (take 3 [CHR ''a'', ch_backslash, ch_quote]) = Inr q \<and>
      q = pre @ [ch_quote])"
proof -
  let ?val = "[CHR ''a'', ch_backslash, ch_quote]"
  have l: "length ?val < 2 ^ 64" by simp
  have s1: "is_special (?val ! 1)" and s2: "is_special (?val ! 2)"
    by (simp_all add: is_special_def)
  have i1: "1 < length ?val" and i2: "2 < length ?val"
    by simp_all
  have p1: "\<not> escape_pending (take 1 ?val)" and p2: "escape_pending (take 2 ?val)"
    by (simp_all add: escape_pending_def ch_backslash_def)
  have q1: "is_quoting (?val ! 1)"
    by (simp add: is_quoting_def)
  have t2: "escape_tail (?val ! 2) = [ch_quote]"
    by (simp add: escape_tail_def ch_quote_def ch_nl_def ch_cr_def ch_tab_def ch_ff_def ch_vt_def)
  have a: "\<exists>pre q. escape_string (take 1 ?val) = Inr pre \<and>
      escape_string (take 2 ?val) = Inr q \<and>
      take (length q) [CHR ''a'', ch_backslash, ch_backslash, ch_quote] = q \<and>
      q \<noteq> [] \<and> last q = ch_backslash \<and>
      escaped_at [CHR ''a'', ch_backslash, ch_backslash, ch_quote] (length q - 1)"
    using escape_string_escapes_quoting [OF l escape_string_a_bs_quote i1 s1] p1 q1
    by (auto simp add: numeral_2_eq_2)
  have b: "\<exists>pre q. escape_string (take 2 ?val) = Inr pre \<and>
      escape_string (take 3 ?val) = Inr q \<and> q = pre @ [ch_quote]"
    using escape_string_escapes_quoting [OF l escape_string_a_bs_quote i2 s2] p2 t2
    by (auto simp add: numeral_2_eq_2 numeral_3_eq_3)
  show ?thesis using a b by blast
qed

section \<open>Claims about the wrapper classes\<close>

text \<open>
  What the two branches in question do against any native library: \<^verbatim>\<open>use_result\<close>
  on a null result, and the failure branches of \<^verbatim>\<open>prepare\<close> and \<^verbatim>\<open>query\<close>.
\<close>

lemma use_result_null:
  assumes "mysql_use_result_r nl (handle m) = 0"
  shows "use_result nl m w =
     (\<lparr>res = 0, num_fields = sint (mysql_num_fields_r nl 0)\<rparr>,
      called (Mysql_num_fields 0) (called (Mysql_use_result (handle m)) w))"
  using assms by (simp add: use_result_def Result_ctor_def Result_dtor_def Result_default_def)

lemma prepare_failure_silent:
  assumes "mysql_stmt_prepare_r nl (mysql_stmt_init_r nl (handle m)) s \<noteq> 0"
  shows "fst (prepare nl m s w) = Stmt_default" and "cerr (snd (prepare nl m s w)) = cerr w"
  using assms by (simp_all add: prepare_def called_def)

lemma query_failure_prints:
  assumes "mysql_real_query_r nl (handle m) s \<noteq> 0"
  shows "fst (query nl m s w) = Result_default"
    and "cerr (snd (query nl m s w)) = cerr w @ ''Error: '' @ mysql_error_r nl (handle m) @ [ch_nl]"
  using assms by (simp_all add: query_def called_def print_cerr_def)

text \<open>
  Claim C4 says that when the query succeeds and the native library has no result set
  to give, no native result-set operation is invoked on the absent handle while the
  returned \<open>Result\<close> is built. Run against \<open>quiet_native\<close> on an open connection:
  \<^verbatim>\<open>use_result\<close> receives the null result, builds and drops the temporary of the
  statement \<^verbatim>\<open>Result{};\<close>, and goes on to \<^verbatim>\<open>return Result{result};\<close>, whose
  constructor calls \<^verbatim>\<open>mysql_num_fields\<close> with the null pointer. The object that
  comes back holds no handle.
\<close>

theorem query_no_result_set_calls_num_fields:
  "query quiet_native \<lparr>handle = 1\<rparr> ''INSERT INTO t VALUES (1)'' world0 =
     (\<lparr>res = 0, num_fields = 0\<rparr>,
      \<lparr>calls = [Mysql_real_query 1 ''INSERT INTO t VALUES (1)'', Mysql_use_result 1,
                Mysql_num_fields 0],
       cerr = []\<rparr>)
   \<and> \<not> Result_bool \<lparr>res = 0, num_fields = 0\<rparr>"
  by (simp add: query_def use_result_def Result_ctor_def Result_dtor_def Result_default_def
      Result_bool_def called_def quiet_native_def world0_def)

text \<open>
  Claim C5 says that a failed preparation, like a failed connection or query, is
  reported on the error stream. Run against \<open>failing_native\<close>: \<^verbatim>\<open>prepare\<close> returns
  the empty \<open>Stmt\<close> and leaves the error stream empty, while \<^verbatim>\<open>query\<close> and
  \<^verbatim>\<open>connect\<close> each write the native error text.
\<close>

theorem prepare_failure_prints_nothing:
  "prepare failing_native \<lparr>handle = 1\<rparr> ''SELECT ?'' world0 =
     (Stmt_default,
      \<lparr>calls = [Mysql_stmt_init 1, Mysql_stmt_prepare 2 ''SELECT ?''], cerr = []\<rparr>)
   \<and> \<not> Stmt_bool Stmt_default
   \<and> cerr (snd (query failing_native \<lparr>handle = 1\<rparr> ''SELECT ?'' world0))
       = ''Error: server error'' @ [ch_nl]
   \<and> cerr (snd (snd (connect failing_native args0 \<lparr>handle = 0\<rparr> world0)))
       = ''Failed to connect to database: Error: server error'' @ [ch_nl]"
  by (simp add: prepare_def query_def connect_def is_open_def Stmt_default_def Stmt_bool_def
      called_def print_cerr_def failing_native_def quiet_native_def world0_def)

text \<open>
  Claim C6 says that \<^verbatim>\<open>fetch_row\<close> on a \<open>Result\<close> that is default-constructed, or
  that a failed query returned, yields an empty \<open>Row\<close> rather than erroring. Such a
  \<open>Result\<close> does evaluate false. But \<^verbatim>\<open>fetch_row\<close> does not look at the handle: run
  against \<open>failing_native\<close>, it calls \<^verbatim>\<open>mysql_fetch_row\<close> and
  \<^verbatim>\<open>mysql_fetch_lengths\<close> with the null pointer, where the destructor of the same
  object, which tests the handle first, makes no native call.
\<close>

theorem fetch_row_on_empty_result_calls_native:
  "\<not> Result_bool Result_default
   \<and> fst (query failing_native \<lparr>handle = 1\<rparr> ''SELECT 1'' world0) = Result_default
   \<and> calls (snd (fetch_row failing_native Result_default world0))
       = [Mysql_fetch_row 0, Mysql_fetch_lengths 0]
   \<and> calls (Result_dtor Result_default world0) = []"
  by (simp add: Result_bool_def Result_default_def query_def fetch_row_def Result_dtor_def
      called_def failing_native_def quiet_native_def world0_def)

lemma size_to_int_exact:
  assumes "n < 2 ^ 31"
  shows "(scast (ucast (word_of_nat n :: size_t) :: 32 word) :: 64 word) = word_of_nat n"
proof -
  have "take_bit 64 n = n"
    using assms by (simp add: take_bit_nat_eq_self)
  then have u: "(ucast (word_of_nat n :: size_t) :: 32 word) = word_of_nat n"
    by (simp add: unsigned_of_nat)
  have "signed_take_bit 31 (int n) = int n"
    using assms by (simp add: signed_take_bit_int_eq_self)
  then have "(scast (word_of_nat n :: 32 word) :: 64 word) = word_of_nat n"
    by (simp add: signed_of_nat)
  with u show ?thesis by simp
qed

text \<open>
  Claim C7, as the code has it. The claim reads: for every string, \<^verbatim>\<open>bind_param\<close>
  records the exact byte size as the buffer length and as the value the slot's length
  pointer designates. The size travels through the \<^verbatim>\<open>int buffer_length\<close> parameter
  of the six-argument overload, so this holds for every string of fewer than \<open>2^31\<close>
  bytes, embedded null bytes included: the slot \<open>i\<close> of the array then holds the
  string's bytes as buffer, its size as \<^verbatim>\<open>buffer_length\<close>, and a length pointer to
  that very member.
\<close>

theorem bind_param_string_length:
  assumes "params this = Some arr" and "0 \<le> i" and "nat i < length arr"
    and "length x < 2 ^ 31"
  shows "\<exists>arr'. bind_param_string this i x = Inr (this\<lparr>params := Some arr'\<rparr>) \<and>
     length arr' = length arr \<and>
     buffer (arr' ! nat i) = String_bytes x \<and>
     unat (buffer_length (arr' ! nat i)) = length x \<and>
     deref_ulong arr' (length_ptr (arr' ! nat i)) = Some (word_of_nat (length x))"
proof -
  let ?b = "(arr ! nat i)\<lparr>buffer_type := MYSQL_TYPE_STRING, buffer := String_bytes x,
      buffer_length := word_of_nat (length x), is_null := 0,
      length_ptr := Buffer_length_of (nat i)\<rparr>"
  have bl: "(scast (ucast (word_of_nat (length x) :: size_t) :: 32 word) :: 64 word)
      = word_of_nat (length x)"
    using assms(4) by (rule size_to_int_exact)
  have r: "bind_param_string this i x = Inr (this\<lparr>params := Some (arr[nat i := ?b])\<rparr>)"
    using assms(1-3) by (simp add: bind_param_string_def bind_param_def bl)
  have "length x < 2 ^ 64"
    using assms(4) by (rule less_trans) simp
  then have u: "unat (word_of_nat (length x) :: 64 word) = length x"
    by (simp add: unat_of_nat)
  show ?thesis
    using r assms(3) u by (auto simp add: deref_ulong_def)
qed

theorem bind_param_string_length_witness:
  "\<exists>arr'. bind_param_string one_slot_stmt 0 [CHR ''a'', CHR 0x00, CHR ''b''] =
       Inr (one_slot_stmt\<lparr>params := Some arr'\<rparr>) \<and>
     length arr' = length [zero_bind] \<and>
     buffer (arr' ! nat 0) = String_bytes [CHR ''a'', CHR 0x00, CHR ''b''] \<and>
     unat (buffer_length (arr' ! nat 0)) = length [CHR ''a'', CHR 0x00, CHR ''b''] \<and>
     deref_ulong arr' (length_ptr (arr' ! nat 0))
       = Some (word_of_nat (length [CHR ''a'', CHR 0x00, CHR ''b'']))"
proof -
  have p: "params one_slot_stmt = Some [zero_bind]"
    by (simp add: one_slot_stmt_def)
  have i: "(0::int) \<le> 0" "nat 0 < length [zero_bind]"
    by simp_all
  have l: "length [CHR ''a'', CHR 0x00, CHR ''b''] < 2 ^ 31"
    by simp
  show ?thesis
    by (rule bind_param_string_length [OF p i l])
qed

text \<open>
  The claim as written fails for a string of \<open>2^31\<close> bytes: the \<^verbatim>\<open>int\<close> it is
  converted to is negative, and the slot records \<open>2^64 - 2^31\<close>.
\<close>

theorem bind_param_string_length_counterexample:
  "bind_param_string one_slot_stmt 0 (replicate 2147483648 (CHR ''a'')) =
   Inr \<lparr>stmt = 2, count = 1,
         params = Some [\<lparr>buffer_type = MYSQL_TYPE_STRING,
           buffer = String_bytes (replicate 2147483648 (CHR ''a'')),
           buffer_length = 0xFFFFFFFF80000000, is_null = 0,
           length_ptr = Buffer_length_of 0\<rparr>],
         str_length = None\<rparr>
   \<and> length (replicate 2147483648 (CHR ''a'')) = 2147483648
   \<and> unat (0xFFFFFFFF80000000 :: 64 word) \<noteq> 2147483648"
  by (simp add: bind_param_string_def bind_param_def zero_bind_def one_slot_stmt_def)

lemma count_list_called:
  "count_list (calls (called c w)) e = count_list (calls w) e + (if c = e then 1 else 0)"
  by (simp add: called_def)

text \<open>
  Claim C8. Take a \<open>Result\<close> \<open>r\<close> and a \<open>Stmt\<close> \<open>s\<close> that hold a native handle. After
  move construction, and after move assignment to another object (\<open>d\<close>, which as a
  second owner holds a different handle, or \<open>t\<close>), the source evaluates false and the
  destination holds the source's handle; destroying the two, in either order, adds
  exactly one release of that handle to the native calls made.
\<close>

theorem move_releases_handle_once:
  assumes "res r \<noteq> 0" and "res d \<noteq> res r" and "stmt s \<noteq> 0"
  shows
    "(case Result_move r of (n, r') \<Rightarrow>
        \<not> Result_bool r' \<and> res n = res r \<and>
        count_list (calls (Result_dtor n (Result_dtor r' w))) (Mysql_free_result (res r))
          = Suc (count_list (calls w) (Mysql_free_result (res r))) \<and>
        count_list (calls (Result_dtor r' (Result_dtor n w))) (Mysql_free_result (res r))
          = Suc (count_list (calls w) (Mysql_free_result (res r)))) \<and>
     (case Result_move_assign d r w of (d', r', w') \<Rightarrow>
        \<not> Result_bool r' \<and> res d' = res r \<and>
        count_list (calls (Result_dtor d' (Result_dtor r' w'))) (Mysql_free_result (res r))
          = Suc (count_list (calls w) (Mysql_free_result (res r))) \<and>
        count_list (calls (Result_dtor r' (Result_dtor d' w'))) (Mysql_free_result (res r))
          = Suc (count_list (calls w) (Mysql_free_result (res r)))) \<and>
     (case Stmt_move s of (n, s') \<Rightarrow>
        \<not> Stmt_bool s' \<and> stmt n = stmt s \<and> params n = params s \<and>
        count_list (calls (Stmt_dtor n (Stmt_dtor s' w))) (Mysql_stmt_close (stmt s))
          = Suc (count_list (calls w) (Mysql_stmt_close (stmt s))) \<and>
        count_list (calls (Stmt_dtor s' (Stmt_dtor n w))) (Mysql_stmt_close (stmt s))
          = Suc (count_list (calls w) (Mysql_stmt_close (stmt s)))) \<and>
     (case Stmt_move_assign t s of (t', s') \<Rightarrow>
        \<not> Stmt_bool s' \<and> stmt t' = stmt s \<and> params t' = params s \<and>
        count_list (calls (Stmt_dtor t' (Stmt_dtor s' w))) (Mysql_stmt_close (stmt s))
          = Suc (count_list (calls w) (Mysql_stmt_close (stmt s))) \<and>
        count_list (calls (Stmt_dtor s' (Stmt_dtor t' w))) (Mysql_stmt_close (stmt s))
          = Suc (count_list (calls w) (Mysql_stmt_close (stmt s))))"
proof -
  have a: "case Result_move r of (n, r') \<Rightarrow>
        \<not> Result_bool r' \<and> res n = res r \<and>
        count_list (calls (Result_dtor n (Result_dtor r' w))) (Mysql_free_result (res r))
          = Suc (count_list (calls w) (Mysql_free_result (res r))) \<and>
        count_list (calls (Result_dtor r' (Result_dtor n w))) (Mysql_free_result (res r))
          = Suc (count_list (calls w) (Mysql_free_result (res r)))"
    using assms(1)
    by (simp add: Result_move_def Result_bool_def Result_dtor_def count_list_called)
  have b: "case Result_move_assign d r w of (d', r', w') \<Rightarrow>
        \<not> Result_bool r' \<and> res d' = res r \<and>
        count_list (calls (Result_dtor d' (Result_dtor r' w'))) (Mysql_free_result (res r))
          = Suc (count_list (calls w) (Mysql_free_result (res r))) \<and>
        count_list (calls (Result_dtor r' (Result_dtor d' w'))) (Mysql_free_result (res r))
          = Suc (count_list (calls w) (Mysql_free_result (res r)))"
    using assms(1,2)
    by (simp add: Result_move_assign_def Result_bool_def Result_dtor_def count_list_called)
  have c: "case Stmt_move s of (n, s') \<Rightarrow>
        \<not> Stmt_bool s' \<and> stmt n = stmt s \<and> params n = params s \<and>
        count_list (calls (Stmt_dtor n (Stmt_dtor s' w))) (Mysql_stmt_close (stmt s))
          = Suc (count_list (calls w) (Mysql_stmt_close (stmt s))) \<and>
        count_list (calls (Stmt_dtor s' (Stmt_dtor n w))) (Mysql_stmt_close (stmt s))
          = Suc (count_list (calls w) (Mysql_stmt_close (stmt s)))"
    using assms(3)
    by (simp add: Stmt_move_def Stmt_bool_def Stmt_dtor_def count_list_called)
  have e: "case Stmt_move_assign t s of (t', s') \<Rightarrow>
        \<not> Stmt_bool s' \<and> stmt t' = stmt s \<and> params t' = params s \<and>
        count_list (calls (Stmt_dtor t' (Stmt_dtor s' w))) (Mysql_stmt_close (stmt s))
          = Suc (count_list (calls w) (Mysql_stmt_close (stmt s))) \<and>
        count_list (calls (Stmt_dtor s' (Stmt_dtor t' w))) (Mysql_stmt_close (stmt s))
          = Suc (count_list (calls w) (Mysql_stmt_close (stmt s)))"
    using assms(3)
    by (simp add: Stmt_move_assign_def Stmt_bool_def Stmt_dtor_def count_list_called)
  from a b c e show ?thesis by simp
qed

theorem move_releases_handle_once_witness:
  "(case Result_move \<lparr>res = 5, num_fields = 2\<rparr> of (n, r') \<Rightarrow>
        \<not> Result_bool r' \<and> res n = 5 \<and>
        count_list (calls (Result_dtor n (Result_dtor r' world0))) (Mysql_free_result 5) = 1) \<and>
   (case Result_move_assign \<lparr>res = 6, num_fields = 1\<rparr> \<lparr>res = 5, num_fields = 2\<rparr> world0
      of (d', r', w') \<Rightarrow>
        \<not> Result_bool r' \<and> res d' = 5 \<and>
        count_list (calls (Result_dtor d' (Result_dtor r' w'))) (Mysql_free_result 5) = 1) \<and>
   (case Stmt_move one_slot_stmt of (n, s') \<Rightarrow>
        \<not> Stmt_bool s' \<and> stmt n = 2 \<and>
        count_list (calls (Stmt_dtor n (Stmt_dtor s' world0))) (Mysql_stmt_close 2) = 1) \<and>
   (case Stmt_move_assign Stmt_default one_slot_stmt of (t', s') \<Rightarrow>
        \<not> Stmt_bool s' \<and> stmt t' = 2 \<and>
        count_list (calls (Stmt_dtor t' (Stmt_dtor s' world0))) (Mysql_stmt_close 2) = 1)"
proof -
  have h: "res \<lparr>res = 5, num_fields = 2\<rparr> \<noteq> 0"
    "res \<lparr>res = 6, num_fields = 1\<rparr> \<noteq> res \<lparr>res = 5, num_fields = 2\<rparr>"
    "stmt one_slot_stmt \<noteq> 0"
    by (simp_all add: one_slot_stmt_def)
  have s: "stmt one_slot_stmt = 2" "calls world0 = []"
    by (simp_all add: one_slot_stmt_def world0_def)
  show ?thesis
    using move_releases_handle_once [OF h, of world0 Stmt_default]
    by (simp add: s split_beta)
qed

lemma Row_move_assign_no_result:
  assumes "Row_move_assign this x = Some y"
  shows False
proof -
  have "(case (this, x) of (t, u) \<Rightarrow> \<lambda>_. False) y"
  proof (rule Row_move_assign.raw_induct [where P = "\<lambda>_ _ _. False"])
    show "(case (this, x) of (t, u) \<Rightarrow> Row_move_assign t u) = Some y"
      using assms by simp
  next
    fix assign :: "Row \<Rightarrow> Row \<Rightarrow> (Row \<times> Row) option" and t u r
    assume IH: "\<And>x b y. assign x b = Some y \<Longrightarrow> False"
      and eq: "(case Row_move t of
          (tmp, a) \<Rightarrow>
            Option.bind (assign a u)
              (\<lambda>(a', b'). Option.bind (assign b' tmp) (\<lambda>(b'', tmp'). Some (a', b'')))) = Some r"
    obtain tmp a where m: "Row_move t = (tmp, a)"
      by (cases "Row_move t")
    show False
    proof (cases "assign a u")
      case None
      with m eq show ?thesis by simp
    next
      case (Some r')
      then show ?thesis by (rule IH)
    qed
  qed
  then show False by simp
qed

text \<open>
  Claim C9 says that the move assignment of \<open>Row\<close> terminates for every pair of rows.
  It returns for none: the \<^verbatim>\<open>std::swap\<close> it calls assigns by move, which is the
  operator itself, before anything else can end the recursion.
\<close>

theorem Row_move_assign_never_returns: "Row_move_assign this x = None"
proof (cases "Row_move_assign this x")
  case None
  then show ?thesis .
next
  case (Some y)
  then show ?thesis by (rule Row_move_assign_no_result [THEN FalseE])
qed

text \<open>
  Claim C10. On a connection whose handle is null, \<^verbatim>\<open>insert_id\<close> and
  \<^verbatim>\<open>affected_rows\<close> return \<open>-1\<close> and make no native call. \<^verbatim>\<open>more_results\<close> and
  \<^verbatim>\<open>next_result\<close> have one path only: whatever the handle, null included, they pass
  it to the native library and return its answer.
\<close>

theorem more_results_unguarded:
  "insert_id nl \<lparr>handle = 0\<rparr> w = (- 1, w) \<and>
   affected_rows nl \<lparr>handle = 0\<rparr> w = (- 1, w) \<and>
   more_results nl m w =
     (mysql_more_results_r nl (handle m), called (Mysql_more_results (handle m)) w) \<and>
   next_result nl m w =
     (mysql_next_result_r nl (handle m), called (Mysql_next_result (handle m)) w) \<and>
   more_results nl \<lparr>handle = 0\<rparr> w = (mysql_more_results_r nl 0, called (Mysql_more_results 0) w) \<and>
   next_result nl \<lparr>handle = 0\<rparr> w = (mysql_next_result_r nl 0, called (Mysql_next_result 0) w)"
  by (simp add: insert_id_def affected_rows_def more_results_def next_result_def)

end
